theory Spec2Isabelle
  imports Main "HOL-Library.Word" "HOL-Library.Sublist"
begin

unbundle bit_operations_syntax

text \<open>
  A model of the visualization sandbox of the analytics agent: the validator and the
  executor of \<open>api/visualization_handler.py\<close> (class \<open>VisualizationHandler\<close>) and the
  query tool of \<open>api/psql_agent.py\<close> that calls them. Pure code is a function; code
  that raises returns a sum, \<open>Inl\<close> the exception; code with effects takes the world
  and returns it. Printing is taken to succeed.
\<close>

section \<open>Python values, strings and exceptions\<close>

text \<open>
  A Python \<open>str\<close> is modelled as a \<^typ>\<open>string\<close>, one \<^typ>\<open>char\<close> per code point; the
  model therefore covers the code points below U+0100. \<open>bytes\<close> are lists of 8-bit words.
  The values a caller can hand to \<open>validate_code\<close> are the built-in ones below; their
  truth value and their \<open>isinstance(_, str)\<close> test are those of Python.
\<close>

type_synonym bytes = "8 word list"

datatype py_value =
    PyNone
  | PyBool bool
  | PyInt int
  | PyStr string
  | PyBytes bytes
  | PyList "py_value list"

fun truthy :: "py_value \<Rightarrow> bool" where
  "truthy PyNone = False"
| "truthy (PyBool b) = b"
| "truthy (PyInt i) = (i \<noteq> 0)"
| "truthy (PyStr s) = (s \<noteq> [])"
| "truthy (PyBytes b) = (b \<noteq> [])"
| "truthy (PyList xs) = (xs \<noteq> [])"

fun isinstance_str :: "py_value \<Rightarrow> bool" where
  "isinstance_str (PyStr s) = True"
| "isinstance_str v = False"

fun str_of :: "py_value \<Rightarrow> string" where
  "str_of (PyStr s) = s"
| "str_of v = []"

text \<open>
  Exceptions are values. Every constructor is a subclass of Python's \<open>Exception\<close>;
  \<open>BinasciiError\<close> is \<open>binascii.Error\<close>, \<open>OtherError\<close> any other exception a library
  call may raise. \<open>str_exn\<close> is \<open>str(e)\<close>: the message, for a \<open>KeyError\<close> the key in
  quotes.
\<close>

datatype exn =
    ValueError string
  | RuntimeError string
  | SyntaxError string
  | OSError string
  | BinasciiError string
  | ModelRetry string
  | PostgresError string
  | KeyError string
  | OtherError string

fun str_exn :: "exn \<Rightarrow> string" where
  "str_exn (ValueError m) = m"
| "str_exn (RuntimeError m) = m"
| "str_exn (SyntaxError m) = m"
| "str_exn (OSError m) = m"
| "str_exn (BinasciiError m) = m"
| "str_exn (ModelRetry m) = m"
| "str_exn (PostgresError m) = m"
| "str_exn (KeyError m) = CHR 0x27 # m @ [CHR 0x27]"
| "str_exn (OtherError m) = m"

text \<open>
  \<open>str.isspace\<close> on one code point below U+0100: TAB, LF, VT, FF, CR, the four
  separators FS, GS, RS, US, the space, NEL (U+0085) and the no-break space (U+00A0).
  \<open>str.strip()\<close> removes such characters at both ends.
\<close>

definition isspace :: "char \<Rightarrow> bool" where
  "isspace c = ((of_char c :: nat) \<in> {9, 10, 11, 12, 13, 28, 29, 30, 31, 32, 133, 160})"

definition lstrip :: "string \<Rightarrow> string" where
  "lstrip s = dropWhile isspace s"

definition rstrip :: "string \<Rightarrow> string" where
  "rstrip s = rev (dropWhile isspace (rev s))"

definition strip :: "string \<Rightarrow> string" where
  "strip s = rstrip (lstrip s)"

text \<open>\<open>s.split('.')[0]\<close>: the text before the first dot, all of \<open>s\<close> when it has none.\<close>

definition split_dot_0 :: "string \<Rightarrow> string" where
  "split_dot_0 s = takeWhile (\<lambda>c. c \<noteq> CHR ''.'') s"

section \<open>Syntax trees\<close>

text \<open>
  The node classes of Python's \<open>ast\<close> module that \<open>validate_code\<close> tells apart, each
  with the attributes it reads: the alias names of an \<open>Import\<close>, the \<open>module\<close> of an
  \<open>ImportFrom\<close> (\<open>None\<close> for \<open>from . import x\<close>), the \<open>func\<close> of a \<open>Call\<close> followed by
  its arguments and keywords, the \<open>id\<close> of a \<open>Name\<close>. \<open>FunctionDef\<close> and \<open>ClassDef\<close> carry
  their name and their child nodes in field order. Every other class (\<open>Module\<close>, \<open>Expr\<close>,
  \<open>Assign\<close>, \<open>AsyncFunctionDef\<close>, \<open>Lambda\<close>, \<open>Constant\<close>, ...) is \<open>Other\<close>, with the class
  name and the child nodes. The \<open>alias\<close> and \<open>expr_context\<close> leaves below \<open>Import\<close>,
  \<open>ImportFrom\<close> and \<open>Name\<close> match no test of the validator and are left out.
\<close>

datatype node =
    is_Import: Import (names: "string list")
  | is_ImportFrom: ImportFrom (from_module: "string option")
  | is_Call: Call (func: node) (call_args: "node list")
  | is_Name: Name (name_id: string)
  | is_FunctionDef: FunctionDef string (body: "node list")
  | is_ClassDef: ClassDef string (class_body: "node list")
  | is_Other: Other string (children: "node list")

fun iter_child_nodes :: "node \<Rightarrow> node list" where
  "iter_child_nodes (Import ns) = []"
| "iter_child_nodes (ImportFrom m) = []"
| "iter_child_nodes (Call f as) = f # as"
| "iter_child_nodes (Name i) = []"
| "iter_child_nodes (FunctionDef n cs) = cs"
| "iter_child_nodes (ClassDef n cs) = cs"
| "iter_child_nodes (Other c cs) = cs"

lemma size_iter_child_nodes:
  "sum_list (map (\<lambda>c. Suc (size c)) (iter_child_nodes n)) \<le> size n"
  by (cases n) (simp_all add: size_list_conv_sum_list sum_list_Suc)

text \<open>
  \<open>ast.walk\<close> of the standard library: a queue holds the nodes to visit; the first is popped and yielded, its
  children are appended at the end (breadth first). \<open>walk todo\<close> is the list of the
  nodes yielded from the queue \<open>todo\<close>.
\<close>

function walk :: "node list \<Rightarrow> node list" where
  "walk [] = []"
| "walk (n # todo) = n # walk (todo @ iter_child_nodes n)"
  by pat_completeness auto
termination
proof (relation "measure (\<lambda>todo. sum_list (map (\<lambda>c. Suc (size c)) todo))")
  show "wf (measure (\<lambda>todo. sum_list (map (\<lambda>c. Suc (size c)) todo)))" by simp
next
  fix n :: node and todo :: "node list"
  show "(todo @ iter_child_nodes n, n # todo)
      \<in> measure (\<lambda>todo. sum_list (map (\<lambda>c. Suc (size c)) todo))"
    using size_iter_child_nodes [of n] by simp
qed

section \<open>The environment\<close>

text \<open>
  What the program reaches outside itself is a parameter of the model, one field each:
  \<^item> \<open>ast_parse\<close>: the library's parser, giving the tree or raising (\<open>SyntaxError\<close>, or
    another exception);
  \<^item> \<open>mkdtemp\<close>: the name \<open>tempfile.TemporaryDirectory()\<close> creates in the given file
    system, or the exception it raises;
  \<^item> \<open>open_write\<close>: the exception raised when a text file is opened and written, \<open>None\<close>
    when the write succeeds;
  \<^item> \<open>subprocess_run\<close>: \<open>subprocess.run([sys.executable, script], capture_output=True,
    text=True, cwd=dir)\<close>, from the file system it finds to the file system the child
    leaves and the completed process; the call raises when no process can be created;
  \<^item> \<open>gettempdir\<close>, \<open>makedirs\<close>: \<open>tempfile.gettempdir()\<close> and \<open>os.makedirs(_, exist_ok=True)\<close>;
  \<^item> \<open>conn_execute\<close>, \<open>conn_fetch\<close>: the database connection (\<open>conn_fetch\<close> gives the
    rows as \<open>str(results)\<close> prints them);
  \<^item> \<open>viz_agent_run\<close>: the language model's answer to a prompt (\<open>viz_response.data\<close>).
\<close>

type_synonym path = "string list"

datatype entry = Dir | File string

type_synonym filesystem = "path \<Rightarrow> entry option"

record completed_process =
  returncode :: int
  stdout :: string
  stderr :: string

record env =
  ast_parse :: "string \<Rightarrow> exn + node"
  mkdtemp :: "filesystem \<Rightarrow> exn + path"
  open_write :: "filesystem \<Rightarrow> path \<Rightarrow> string \<Rightarrow> exn option"
  subprocess_run :: "filesystem \<Rightarrow> path \<Rightarrow> path \<Rightarrow> exn + filesystem \<times> completed_process"
  gettempdir :: string
  makedirs :: "filesystem \<Rightarrow> string \<Rightarrow> exn + filesystem"
  conn_execute :: "string \<Rightarrow> exn option"
  conn_fetch :: "string \<Rightarrow> exn + string"
  viz_agent_run :: "string \<Rightarrow> exn + string"

text \<open>
  The state of the world a call changes: the file system, the files this process has
  written (path and text), the child processes it has started (script and working
  directory) and the lines it has printed.
\<close>

record world =
  fs :: filesystem
  writes :: "(path \<times> string) list"
  spawns :: "(path \<times> path) list"
  printed :: "string list"

section \<open>The validator\<close>

text \<open>\<open>VisualizationHandler.ALLOWED_IMPORTS\<close> (lines 15 to 18).\<close>

definition ALLOWED_IMPORTS :: "string set" where
  "ALLOWED_IMPORTS = {''pandas'', ''matplotlib.pyplot'', ''seaborn'',
     ''numpy'', ''matplotlib'', ''io'', ''base64'', ''decimal''}"

text \<open>
  The body of the loop over \<open>ast.walk(tree)\<close> for one node (lines 67 to 90): \<open>Some e\<close>
  when the node makes the validator raise \<open>e\<close>, \<open>None\<close> when the loop goes on.
  \<open>check_names\<close> is the inner loop over the aliases of an \<open>Import\<close>. The chain of
  \<open>if\<close>/\<open>elif\<close> is kept in the order of the source, the second test for a \<open>Call\<close>
  included. \<open>check_all\<close> is the loop itself: it stops at the first node that raises.
\<close>

fun check_names :: "string list \<Rightarrow> exn option" where
  "check_names [] = None"
| "check_names (name # rest) =
     (if split_dot_0 name \<notin> ALLOWED_IMPORTS
      then Some (ValueError (''Import not allowed: '' @ name))
      else check_names rest)"

definition check_node :: "node \<Rightarrow> exn option" where
  "check_node n =
     (if is_Import n then check_names (names n)
      else if is_ImportFrom n then
        (case from_module n of
           None \<Rightarrow> None
         | Some m \<Rightarrow>
             if m \<noteq> [] \<and> split_dot_0 m \<notin> ALLOWED_IMPORTS
             then Some (ValueError (''Import not allowed: '' @ m))
             else None)
      else if is_Call n then
        (if is_Name (func n) then
           (if name_id (func n) = ''open''
            then Some (ValueError ''File operations not allowed'')
            else if name_id (func n) = ''__import__''
            then Some (ValueError ''Dynamic imports are not allowed'')
            else None)
         else None)
      else if is_Call n \<and> is_Name (func n) then
        (if name_id (func n) \<in> {''exec'', ''eval''}
         then Some (ValueError ''exec/eval not allowed'')
         else None)
      else if is_FunctionDef n \<or> is_ClassDef n
      then Some (ValueError ''Function and class definitions are not allowed'')
      else None)"

fun check_all :: "node list \<Rightarrow> exn option" where
  "check_all [] = None"
| "check_all (n # ns) = (case check_node n of Some e \<Rightarrow> Some e | None \<Rightarrow> check_all ns)"

text \<open>
  The \<open>try\<close> block of \<open>validate_code\<close> (lines 61 to 92): parse, walk, return \<open>True\<close>;
  \<open>Inl e\<close> when \<open>e\<close> is raised inside it.
\<close>

definition validate_try :: "env \<Rightarrow> string \<Rightarrow> exn + bool" where
  "validate_try env code =
     (case ast_parse env code of
        Inl e \<Rightarrow> Inl e
      | Inr tree \<Rightarrow>
          (case check_all (walk [tree]) of
             Some e \<Rightarrow> Inl e
           | None \<Rightarrow> Inr True))"

text \<open>
  \<open>validate_code\<close> (lines 50 to 98) returns its verdict and the lines it prints (the
  reason of a rejection is printed, not returned). The two handlers follow the \<open>try\<close>
  block: \<open>SyntaxError\<close> first, every other exception second.
\<close>

definition validate_code :: "env \<Rightarrow> py_value \<Rightarrow> bool \<times> string list" where
  "validate_code env code =
     (if \<not> truthy code \<or> \<not> isinstance_str code
      then (False, [''Invalid code: Code must be a non-empty string''])
      else
        let code1 = strip (str_of code) in
        if code1 = []
        then (False, [''Invalid code: Code is empty after stripping''])
        else
          (case validate_try env code1 of
             Inr b \<Rightarrow> (b, [])
           | Inl (SyntaxError m) \<Rightarrow> (False, [''Syntax error in code: '' @ m])
           | Inl e \<Rightarrow> (False, [''Code validation error: '' @ str_exn e])))"

section \<open>The image channel: base64\<close>

text \<open>
  \<open>base64.b64decode(s)\<close> is a function of the standard library, not of this program;
  it is modelled after CPython. Called on a \<open>str\<close> with its default arguments, it
  encodes the text as ASCII (\<open>ValueError\<close> when it has another character) and gives it
  to \<open>binascii.a2b_base64\<close>, which by default skips whatever is outside the alphabet.
  \<open>table_a2b_base64\<close> is the value of an alphabet character.
\<close>

definition table_a2b_base64 :: "char \<Rightarrow> 8 word option" where
  "table_a2b_base64 c =
     (let n = (of_char c :: nat) in
      if 65 \<le> n \<and> n \<le> 90 then Some (of_nat (n - 65))
      else if 97 \<le> n \<and> n \<le> 122 then Some (of_nat (n - 71))
      else if 48 \<le> n \<and> n \<le> 57 then Some (of_nat (n + 4))
      else if n = 43 then Some 62
      else if n = 47 then Some 63
      else None)"

text \<open>
  The decoder's loop over the characters, with its state: the position in the current
  group of four (\<open>quad_pos\<close>), the bits left over from the last character (\<open>leftchar\<close>),
  the padding characters seen in a row (\<open>pads\<close>) and the bytes written. Padding that
  completes a group ends the decoding; at the end of the text an open group is an
  error (the message of the first error also gives a count, left out here).
\<close>

fun a2b_loop :: "string \<Rightarrow> nat \<Rightarrow> 8 word \<Rightarrow> nat \<Rightarrow> bytes \<Rightarrow> exn + bytes" where
  "a2b_loop [] quad_pos leftchar pads bin =
     (if quad_pos \<noteq> 0 then
        (if quad_pos = 1
         then Inl (BinasciiError ''Invalid base64-encoded string: number of data characters cannot be 1 more than a multiple of 4'')
         else Inl (BinasciiError ''Incorrect padding''))
      else Inr bin)"
| "a2b_loop (c # cs) quad_pos leftchar pads bin =
     (if c = CHR ''='' then
        (if 2 \<le> quad_pos \<and> 4 \<le> quad_pos + (pads + 1) then Inr bin
         else a2b_loop cs quad_pos leftchar (if 2 \<le> quad_pos then pads + 1 else pads) bin)
      else
        (case table_a2b_base64 c of
           None \<Rightarrow> a2b_loop cs quad_pos leftchar pads bin
         | Some this_ch \<Rightarrow>
             if quad_pos = 0 then a2b_loop cs 1 this_ch 0 bin
             else if quad_pos = 1 then
               a2b_loop cs 2 (this_ch AND 0x0f) 0 (bin @ [push_bit 2 leftchar OR drop_bit 4 this_ch])
             else if quad_pos = 2 then
               a2b_loop cs 3 (this_ch AND 0x03) 0 (bin @ [push_bit 4 leftchar OR drop_bit 2 this_ch])
             else
               a2b_loop cs 0 0 0 (bin @ [push_bit 6 leftchar OR this_ch])))"

definition a2b_base64 :: "string \<Rightarrow> exn + bytes" where
  "a2b_base64 s = a2b_loop s 0 0 0 []"

definition isascii :: "char \<Rightarrow> bool" where
  "isascii c = ((of_char c :: nat) < 128)"

definition b64decode :: "string \<Rightarrow> exn + bytes" where
  "b64decode s =
     (if list_all isascii s then a2b_base64 s
      else Inl (ValueError ''string argument should contain only ASCII characters''))"

text \<open>
  The image channel, as \<open>execute_visualization\<close> has it in its \<open>return\<close> statement
  (line 126): \<open>base64.b64decode(result.stdout.strip())\<close>.
\<close>

definition decode_stdout :: "string \<Rightarrow> exn + bytes" where
  "decode_stdout out = b64decode (strip out)"

section \<open>The script template\<close>

text \<open>\<open>VisualizationHandler.TEMPLATE\<close> (lines 20 to 41), character by character.\<close>

definition TEMPLATE :: string where
  \<open>TEMPLATE = ''
import pandas as pd
import matplotlib.pyplot as plt
import seaborn as sns
import numpy as np
import io
import base64
from decimal import Decimal

sns.set_theme(style="whitegrid")
sns.set_palette("husl")
plt.switch_backend('Agg')

{code}

# Save plot to bytes buffer
buffer = io.BytesIO()
plt.savefig(buffer, format='png', bbox_inches='tight', dpi=300)
plt.close()
buffer.seek(0)
print(base64.b64encode(buffer.getvalue()).decode())
''\<close>

text \<open>
  \<open>str.format\<close> of the standard library with keyword arguments, for templates whose
  fields are plain names:
  \<open>{{\<close> and \<open>}}\<close> give one brace, \<open>{name}\<close> gives the argument of that name (\<open>KeyError\<close>
  when there is none; the argument is inserted as it is, not scanned again), a brace
  that is not closed or not opened is a \<open>ValueError\<close>. \<open>format_field\<close> reads a field
  name up to its closing brace.
\<close>

fun format_field :: "string \<Rightarrow> string \<Rightarrow> (string \<times> string) option" where
  "format_field acc [] = None"
| "format_field acc (c # cs) =
     (if c = CHR ''}'' then Some (acc, cs) else format_field (acc @ [c]) cs)"

lemma format_field_length: "format_field acc cs = Some (f, r) \<Longrightarrow> length r < length cs"
  by (induction cs arbitrary: acc) (auto split: if_splits simp: less_Suc_eq)

function format_str :: "string \<Rightarrow> (string \<times> string) list \<Rightarrow> exn + string" where
  "format_str [] kwargs = Inr []"
| "format_str (c # cs) kwargs =
     (if c = CHR ''{'' then
        (if cs \<noteq> [] \<and> hd cs = CHR ''{''
         then (case format_str (tl cs) kwargs of Inl e \<Rightarrow> Inl e | Inr t \<Rightarrow> Inr (CHR ''{'' # t))
         else if cs = [] then Inl (ValueError ''Single '{' encountered in format string'')
         else
           (case format_field [] cs of
              None \<Rightarrow> Inl (ValueError ''expected '}' before end of string'')
            | Some (field_name, r) \<Rightarrow>
                (case map_of kwargs field_name of
                   None \<Rightarrow> Inl (KeyError field_name)
                 | Some v \<Rightarrow>
                     (case format_str r kwargs of Inl e \<Rightarrow> Inl e | Inr t \<Rightarrow> Inr (v @ t)))))
      else if c = CHR ''}'' then
        (if cs \<noteq> [] \<and> hd cs = CHR ''}''
         then (case format_str (tl cs) kwargs of Inl e \<Rightarrow> Inl e | Inr t \<Rightarrow> Inr (CHR ''}'' # t))
         else Inl (ValueError ''Single '}' encountered in format string''))
      else
        (case format_str cs kwargs of Inl e \<Rightarrow> Inl e | Inr t \<Rightarrow> Inr (c # t)))"
  by pat_completeness auto
termination
proof (relation "measure (\<lambda>(s, kwargs). length s)")
  show "wf (measure (\<lambda>(s :: string, kwargs :: (string \<times> string) list). length s))" by simp
next
  fix c :: char and cs :: string and kwargs :: "(string \<times> string) list"
  assume "cs \<noteq> [] \<and> hd cs = CHR ''{''"
  then show "((tl cs, kwargs), c # cs, kwargs) \<in> measure (\<lambda>(s, kwargs). length s)"
    by (cases cs) simp_all
next
  fix c :: char and cs :: string and kwargs :: "(string \<times> string) list"
    and x2 :: "string \<times> string" and field_name r :: string and v :: string
  assume "format_field [] cs = Some x2" and "(field_name, r) = x2"
  then have "length r < length cs"
    using format_field_length [of "[]" cs field_name r] by simp
  then show "((r, kwargs), c # cs, kwargs) \<in> measure (\<lambda>(s, kwargs). length s)" by simp
next
  fix c :: char and cs :: string and kwargs :: "(string \<times> string) list"
  assume "cs \<noteq> [] \<and> hd cs = CHR ''}''"
  then show "((tl cs, kwargs), c # cs, kwargs) \<in> measure (\<lambda>(s, kwargs). length s)"
    by (cases cs) simp_all
next
  fix c :: char and cs :: string and kwargs :: "(string \<times> string) list"
  show "((cs, kwargs), c # cs, kwargs) \<in> measure (\<lambda>(s, kwargs). length s)" by simp
qed

section \<open>The execution sandbox\<close>

text \<open>
  What \<open>TemporaryDirectory\<close> does when the \<open>with\<close> block is left, by its end or by an
  exception: the directory and everything below it is removed. The removal itself is
  taken to succeed.
\<close>

definition rmtree :: "path \<Rightarrow> filesystem \<Rightarrow> filesystem" where
  "rmtree d f = (\<lambda>p. if prefix d p then None else f p)"

text \<open>
  The \<open>try\<close> block of \<open>execute_visualization\<close> with its handler (lines 114 to 130): run
  the script in a child process, fail on a non-zero return code, decode the output; an
  exception is printed and raised again.
\<close>

definition run_script :: "env \<Rightarrow> world \<Rightarrow> path \<Rightarrow> path \<Rightarrow> world \<times> (exn + bytes)" where
  "run_script env w script_path temp_dir =
     (let (w1, r) =
        (case subprocess_run env (fs w) script_path temp_dir of
           Inl e \<Rightarrow> (w, Inl e)
         | Inr (fs1, result) \<Rightarrow>
             let w1 = w\<lparr>fs := fs1, spawns := spawns w @ [(script_path, temp_dir)]\<rparr> in
             if returncode result \<noteq> 0
             then (w1, Inl (RuntimeError (''Visualization failed: '' @ stderr result)))
             else (w1, decode_stdout (stdout result)))
      in
      case r of
        Inl e \<Rightarrow> (w1\<lparr>printed := printed w1 @ [''Error executing visualization: '' @ str_exn e]\<rparr>, Inl e)
      | Inr img \<Rightarrow> (w1, Inr img))"

text \<open>
  The script (lines 108 and 109): the template with \<open>data = <data>\<close>, a line break and
  the code in the place of its field.
\<close>

definition render_script :: "string \<Rightarrow> string \<Rightarrow> exn + string" where
  "render_script code data =
     (let full_code = ''data = '' @ data @ [CHR ''\<newline>''] @ code
      in format_str TEMPLATE [(''code'', full_code)])"

text \<open>
  The body of the \<open>with\<close> block (lines 106 to 130): render the script, write it, run
  it. \<open>execute_visualization\<close> (lines 100 to 130) validates first, creates the
  temporary directory, runs the body and removes the directory.
\<close>

definition with_temp_dir :: "env \<Rightarrow> world \<Rightarrow> path \<Rightarrow> string \<Rightarrow> string \<Rightarrow> world \<times> (exn + bytes)" where
  "with_temp_dir env w temp_dir code data =
     (let script_path = temp_dir @ [''visualization.py'']
      in
      case render_script code data of
        Inl e \<Rightarrow> (w, Inl e)
      | Inr script_content \<Rightarrow>
          (case open_write env (fs w) script_path script_content of
             Some e \<Rightarrow> (w, Inl e)
           | None \<Rightarrow>
               run_script env
                 (w\<lparr>fs := (fs w)(script_path \<mapsto> File script_content),
                    writes := writes w @ [(script_path, script_content)]\<rparr>)
                 script_path temp_dir))"

definition execute_visualization :: "env \<Rightarrow> world \<Rightarrow> string \<Rightarrow> string \<Rightarrow> world \<times> (exn + bytes)" where
  "execute_visualization env w code data =
     (let (valid, lines) = validate_code env (PyStr code);
          w0 = w\<lparr>printed := printed w @ lines\<rparr>
      in
      if \<not> valid then (w0, Inl (ValueError ''Invalid visualization code''))
      else
        (case mkdtemp env (fs w0) of
           Inl e \<Rightarrow> (w0, Inl e)
         | Inr temp_dir \<Rightarrow>
             let (w1, r) = with_temp_dir env (w0\<lparr>fs := (fs w0)(temp_dir \<mapsto> Dir)\<rparr>) temp_dir code data
             in (w1\<lparr>fs := rmtree temp_dir (fs w1)\<rparr>, r)))"

section \<open>The session slot and the query tool\<close>

record handler =
  current_visualization :: "bytes option"
  work_dir :: string



text \<open>
  \<open>DatabaseConnection\<close> of \<open>psql_agent.py\<close> (the pool is part of the environment).
  Reading the slot is \<open>get_current_visualization\<close> (lines 32 and 33); writing it is the
  assignment to \<open>viz_handler.current_visualization\<close> (line 176).
\<close>

record deps =
  viz_handler :: handler
  database :: string
  schema :: string


definition set_current_visualization :: "deps \<Rightarrow> bytes \<Rightarrow> deps" where
  "set_current_visualization d img = d\<lparr>viz_handler := (viz_handler d)\<lparr>current_visualization := Some img\<rparr>\<rparr>"

text \<open>
  \<open>DatabaseConnection.execute_query\<close> (lines 35 to 46): explain the query, then fetch;
  a \<open>PostgresError\<close> becomes a \<open>ModelRetry\<close>, any other exception passes through.
  Acquiring the connection is taken to succeed.
\<close>

definition as_model_retry :: "exn \<Rightarrow> exn" where
  "as_model_retry e = (case e of PostgresError m \<Rightarrow> ModelRetry (''Invalid query: '' @ m) | _ \<Rightarrow> e)"

definition deps_execute_query :: "env \<Rightarrow> string \<Rightarrow> exn + string" where
  "deps_execute_query env query =
     (case conn_execute env (''EXPLAIN '' @ query) of
        Some e \<Rightarrow> Inl (as_model_retry e)
      | None \<Rightarrow>
          (case conn_fetch env query of
             Inl e \<Rightarrow> Inl (as_model_retry e)
           | Inr results \<Rightarrow> Inr results))"

text \<open>\<open>str.lower\<close> on one code point below U+0100.\<close>

definition lower_char :: "char \<Rightarrow> char" where
  "lower_char c =
     (let n = (of_char c :: nat) in
      if (65 \<le> n \<and> n \<le> 90) \<or> (192 \<le> n \<and> n \<le> 222 \<and> n \<noteq> 215)
      then char_of (n + 32) else c)"

definition lower :: "string \<Rightarrow> string" where
  "lower s = map lower_char s"

definition viz_prompt :: "string \<Rightarrow> string \<Rightarrow> string" where
  \<open>viz_prompt query results = ''
            Generate Python code to visualize the following SQL results appropriately:
            SQL Query: '' @ query @ ''
            Query Results: '' @ results @ ''
            ''\<close>

record response =
  results :: string
  visualization_code :: "string option"
  has_visualization :: bool

text \<open>
  The agent's tool \<open>execute_query\<close> (lines 143 to 178). It returns the response it
  serialises (as a record, not as JSON text), the connection with the slot as it
  leaves it, and the world.
\<close>

definition execute_query :: "env \<Rightarrow> deps \<Rightarrow> world \<Rightarrow> string \<Rightarrow> deps \<times> world \<times> (exn + response)" where
  "execute_query env d w query =
     (if \<not> prefix ''select'' (strip (lower query))
      then (d, w, Inl (ModelRetry ''Only SELECT queries are allowed''))
      else
        (case deps_execute_query env query of
           Inl e \<Rightarrow> (d, w, Inl e)
         | Inr rows \<Rightarrow>
             (case viz_agent_run env (viz_prompt query rows) of
                Inl e \<Rightarrow> (d, w, Inl e)
              | Inr answer \<Rightarrow>
                  let viz_code = (if answer \<noteq> ''None'' then Some answer else None);
                      (w1, viz_data, viz_code1) =
                        (if viz_code \<noteq> None \<and> viz_code \<noteq> Some []
                         then
                           (case execute_visualization env w (the viz_code) rows of
                              (w2, Inr img) \<Rightarrow> (w2, Some img, viz_code)
                            | (w2, Inl e) \<Rightarrow>
                                (w2\<lparr>printed := printed w2 @ [''Visualization failed: '' @ str_exn e]\<rparr>,
                                 None, None))
                         else (w, None, viz_code));
                      resp = \<lparr>results = rows, visualization_code = viz_code1,
                              has_visualization = (viz_data \<noteq> None)\<rparr>;
                      d1 = (if viz_data \<noteq> None \<and> viz_data \<noteq> Some []
                            then set_current_visualization d (the viz_data) else d)
                  in (d1, w1, Inr resp))))"

section \<open>Notions the properties are stated with\<close>

text \<open>
  Every node of a tree, the root first: what "anywhere in the syntax tree" means,
  defined by recursion on the tree and not by the validator's queue.
\<close>

lemma size_child: "c \<in> set (iter_child_nodes n) \<Longrightarrow> size c < size n"
proof -
  assume "c \<in> set (iter_child_nodes n)"
  then have "Suc (size c) \<in> set (map (\<lambda>c. Suc (size c)) (iter_child_nodes n))"
    by simp
  then have "Suc (size c) \<le> sum_list (map (\<lambda>c. Suc (size c)) (iter_child_nodes n))"
    by (intro member_le_sum_list) auto
  then show ?thesis using size_iter_child_nodes [of n] by simp
qed

function subnodes :: "node \<Rightarrow> node list" where
  "subnodes n = n # concat (map subnodes (iter_child_nodes n))"
  by pat_completeness auto
termination
  by (relation "measure size") (simp_all add: size_child)

declare subnodes.simps [simp del]

text \<open>
  An import statement whose top-level module name is outside the allow-list: an
  \<open>import\<close> with such a name among its aliases, or a \<open>from m import ...\<close> with such a
  module \<open>m\<close>.
\<close>

fun import_outside_allow_list :: "node \<Rightarrow> bool" where
  "import_outside_allow_list (Import ns) = list_ex (\<lambda>a. split_dot_0 a \<notin> ALLOWED_IMPORTS) ns"
| "import_outside_allow_list (ImportFrom (Some m)) = (m \<noteq> [] \<and> split_dot_0 m \<notin> ALLOWED_IMPORTS)"
| "import_outside_allow_list n = False"

text \<open>The text of the template before its field, and the text after it.\<close>

definition PROLOGUE :: string where
  \<open>PROLOGUE = ''
import pandas as pd
import matplotlib.pyplot as plt
import seaborn as sns
import numpy as np
import io
import base64
from decimal import Decimal

sns.set_theme(style="whitegrid")
sns.set_palette("husl")
plt.switch_backend('Agg')

''\<close>

definition EPILOGUE :: string where
  \<open>EPILOGUE = ''

# Save plot to bytes buffer
buffer = io.BytesIO()
plt.savefig(buffer, format='png', bbox_inches='tight', dpi=300)
plt.close()
buffer.seek(0)
print(base64.b64encode(buffer.getvalue()).decode())
''\<close>

definition script_text :: "string \<Rightarrow> string \<Rightarrow> string" where
  "script_text code data = PROLOGUE @ ''data = '' @ data @ [CHR ''\<newline>''] @ code @ EPILOGUE"

text \<open>The characters that carry data in base64 text.\<close>

definition b64_data_chars :: "string \<Rightarrow> string" where
  "b64_data_chars s = filter (\<lambda>c. table_a2b_base64 c \<noteq> None) s"

section \<open>Concrete scenarios\<close>

text \<open>
  The trees Python's parser gives for the code of the scenarios:
  \<^item> \<open>eval('1')\<close>;
  \<^item> \<open>def helper(): pass\<close>;
  \<^item> \<open>import os\<close>, then \<open>os.system('ls')\<close>;
  \<^item> \<open>import os\<close>, then \<open>def helper(): pass\<close>;
  \<^item> \<open>plt.bar(['a','b'],[1,2])\<close>, then \<open>plt.title('Test')\<close>.
\<close>

definition tree_eval :: node where
  "tree_eval = Other ''Module'' [Other ''Expr'' [Call (Name ''eval'') [Other ''Constant'' []]]]"


definition tree_import_os :: node where
  "tree_import_os = Other ''Module''
     [Import [''os''],
      Other ''Expr'' [Call (Other ''Attribute'' [Name ''os'']) [Other ''Constant'' []]]]"


definition tree_bar_chart :: node where
  "tree_bar_chart = Other ''Module''
     [Other ''Expr'' [Call (Other ''Attribute'' [Name ''plt''])
        [Other ''List'' [Other ''Constant'' [], Other ''Constant'' []],
         Other ''List'' [Other ''Constant'' [], Other ''Constant'' []]]],
      Other ''Expr'' [Call (Other ''Attribute'' [Name ''plt'']) [Other ''Constant'' []]]]"

text \<open>
  An environment for the scenarios: the parser answers with the given tree, or with
  the given exception; the temporary directory is \<open>/tmp/tmpk3x9\<close>; writing succeeds; the
  child process leaves the file system as it is and ends with the given outcome; the
  database has one row and the language model answers with the given text.
\<close>

definition scenario_env :: "exn + node \<Rightarrow> completed_process \<Rightarrow> string \<Rightarrow> env" where
  "scenario_env parsed outcome answer =
     \<lparr>ast_parse = (\<lambda>code. parsed),
      mkdtemp = (\<lambda>f. Inr [''tmp'', ''tmpk3x9'']),
      open_write = (\<lambda>f p t. None),
      subprocess_run = (\<lambda>f script cwd. Inr (f, outcome)),
      gettempdir = ''/tmp'',
      makedirs = (\<lambda>f d. Inr f),
      conn_execute = (\<lambda>q. None),
      conn_fetch = (\<lambda>q. Inr ''[{'a': 1}]''),
      viz_agent_run = (\<lambda>prompt. Inr answer)\<rparr>"

text \<open>
  Two outcomes of the child process: it prints the base64 text of the eight bytes a
  PNG file starts with and exits with 0; it fails with a traceback and exits with 1.
\<close>

definition outcome_png :: completed_process where
  "outcome_png = \<lparr>returncode = 0, stdout = ''iVBORw0KGgo='' @ [CHR ''\<newline>''], stderr = []\<rparr>"

definition outcome_failed :: completed_process where
  "outcome_failed = \<lparr>returncode = 1, stdout = [], stderr = ''NameError: name 'df' is not defined''\<rparr>"


definition code_bar_chart :: string where
  \<open>code_bar_chart = ''plt.bar(['a','b'],[1,2])\<newline>plt.title('Test')''\<close>

definition data_rows :: string where
  "data_rows = ''[{'a':1}]''"

text \<open>
  Two unhealthy hosts: no temporary directory can be created; no process can be
  started. The language model answers with the bar chart code.
\<close>

definition disk_full_env :: env where
  "disk_full_env = (scenario_env (Inr tree_bar_chart) outcome_png code_bar_chart)
     \<lparr>mkdtemp := (\<lambda>f. Inl (OSError ''[Errno 28] No space left on device''))\<rparr>"

definition no_process_env :: env where
  "no_process_env = (scenario_env (Inr tree_bar_chart) outcome_png code_bar_chart)
     \<lparr>subprocess_run := (\<lambda>f script cwd. Inl (OSError ''[Errno 11] Resource temporarily unavailable''))\<rparr>"

definition world0 :: world where
  "world0 = \<lparr>fs = Map.empty, writes = [], spawns = [], printed = []\<rparr>"

definition deps0 :: deps where
  "deps0 = \<lparr>viz_handler = \<lparr>current_visualization = None, work_dir = ''/tmp''\<rparr>,
            database = ''employees'', schema = ''public''\<rparr>"

section \<open>The walk visits every node\<close>

lemma walk_todo_subset: "set todo \<subseteq> set (walk todo)"
proof (induction todo rule: walk.induct)
  case 1
  then show ?case by simp
next
  case (2 n todo)
  then show ?case by auto
qed

lemma walk_children_closed:
  "m \<in> set (walk todo) \<Longrightarrow> set (iter_child_nodes m) \<subseteq> set (walk todo)"
proof (induction todo rule: walk.induct)
  case 1
  then show ?case by simp
next
  case (2 n todo)
  show ?case
  proof (cases "m = n")
    case True
    have "set (iter_child_nodes n) \<subseteq> set (walk (todo @ iter_child_nodes n))"
      using walk_todo_subset [of "todo @ iter_child_nodes n"] by simp
    with True show ?thesis by auto
  next
    case False
    with "2.prems" have "m \<in> set (walk (todo @ iter_child_nodes n))" by simp
    then have "set (iter_child_nodes m) \<subseteq> set (walk (todo @ iter_child_nodes n))"
      by (rule "2.IH")
    then show ?thesis by auto
  qed
qed

lemma subnodes_in_walk: "n \<in> set (walk todo) \<Longrightarrow> set (subnodes n) \<subseteq> set (walk todo)"
proof (induction n rule: subnodes.induct)
  case (1 n)
  have "set (subnodes c) \<subseteq> set (walk todo)" if "c \<in> set (iter_child_nodes n)" for c
    using that "1.IH" [of c] walk_children_closed [OF "1.prems"] by blast
  with "1.prems" show ?case
    by (subst subnodes.simps) auto
qed

lemma subnodes_self: "n \<in> set (subnodes n)"
  by (subst subnodes.simps) simp

lemma subnodes_child: "c \<in> set (iter_child_nodes n) \<Longrightarrow> set (subnodes c) \<subseteq> set (subnodes n)"
  by (subst (2) subnodes.simps) auto

lemma walk_in_subnodes: "set (walk todo) \<subseteq> (\<Union>t \<in> set todo. set (subnodes t))"
proof (induction todo rule: walk.induct)
  case 1
  then show ?case by simp
next
  case (2 n todo)
  have "(\<Union>t \<in> set (todo @ iter_child_nodes n). set (subnodes t))
      \<subseteq> (\<Union>t \<in> set (n # todo). set (subnodes t))"
    using subnodes_child [of _ n] by auto
  with "2.IH" subnodes_self [of n] show ?case by auto
qed

lemma set_walk: "set (walk [t]) = set (subnodes t)"
proof
  show "set (walk [t]) \<subseteq> set (subnodes t)"
    using walk_in_subnodes [of "[t]"] by simp
  show "set (subnodes t) \<subseteq> set (walk [t])"
    using subnodes_in_walk [of t "[t]"] walk_todo_subset [of "[t]"] by simp
qed

lemma check_all_Some: "n \<in> set ns \<Longrightarrow> check_node n \<noteq> None \<Longrightarrow> check_all ns \<noteq> None"
  by (induction ns) (auto split: option.splits)

lemma check_names_bad:
  "list_ex (\<lambda>a. split_dot_0 a \<notin> ALLOWED_IMPORTS) ns \<Longrightarrow> check_names ns \<noteq> None"
  by (induction ns) auto

lemma check_node_import: "import_outside_allow_list n \<Longrightarrow> check_node n \<noteq> None"
  by (cases n rule: import_outside_allow_list.cases) (auto simp: check_node_def check_names_bad)


lemma check_node_eval: "check_node (Call (Name ''eval'') as) = None"
  by (simp add: check_node_def)

lemma check_node_exec: "check_node (Call (Name ''exec'') as) = None"
  by (simp add: check_node_def)

lemma validate_try_violation:
  assumes "ast_parse env c = Inr tree" and "n \<in> set (subnodes tree)" and "check_node n \<noteq> None"
  shows "\<exists>e. validate_try env c = Inl e"
proof -
  from assms(2) set_walk [of tree] have "n \<in> set (walk [tree])" by blast
  then have "check_all (walk [tree]) \<noteq> None"
    using assms(3) by (rule check_all_Some)
  then obtain e where "check_all (walk [tree]) = Some e" by blast
  with assms(1) show ?thesis by (simp add: validate_try_def del: walk.simps)
qed

lemma validate_code_Inl: "validate_try env (strip c) = Inl e \<Longrightarrow> fst (validate_code env (PyStr c)) = False"
  by (cases e) (simp_all add: validate_code_def Let_def)

lemma validate_code_violation:
  assumes "ast_parse env (strip c) = Inr tree" and "n \<in> set (subnodes tree)" and "check_node n \<noteq> None"
  shows "fst (validate_code env (PyStr c)) = False"
  using validate_try_violation [OF assms] validate_code_Inl by blast

section \<open>Facts about the scenarios\<close>

lemma scenario_env_simps:
  "ast_parse (scenario_env parsed outcome answer) c = parsed"
  "mkdtemp (scenario_env parsed outcome answer) f = Inr [''tmp'', ''tmpk3x9'']"
  "open_write (scenario_env parsed outcome answer) f p t = None"
  "subprocess_run (scenario_env parsed outcome answer) f p cwd = Inr (f, outcome)"
  "conn_execute (scenario_env parsed outcome answer) q = None"
  "conn_fetch (scenario_env parsed outcome answer) q = Inr ''[{'a': 1}]''"
  "viz_agent_run (scenario_env parsed outcome answer) prompt = Inr answer"
  by (simp_all add: scenario_env_def)

lemmas strip_defs = strip_def lstrip_def rstrip_def isspace_def


lemma valid_bar_chart:
  "validate_code (scenario_env (Inr tree_bar_chart) outcome answer) (PyStr code_bar_chart) = (True, [])"
  by (simp add: validate_code_def validate_try_def scenario_env_simps tree_bar_chart_def
      code_bar_chart_def check_node_def strip_defs)

lemma fst_valid_bar_chart:
  "fst (validate_code (scenario_env (Inr tree_bar_chart) outcome answer) (PyStr code_bar_chart)) = True"
  by (simp add: valid_bar_chart)

section \<open>Dynamic evaluation (C1)\<close>

lemma check_node_never_exec_eval: "check_node n \<noteq> Some (ValueError ''exec/eval not allowed'')"
proof (cases n)
  case (Import ns)
  have "check_names ns \<noteq> Some (ValueError ''exec/eval not allowed'')"
    by (induction ns) auto
  with Import show ?thesis by (simp add: check_node_def)
qed (auto simp: check_node_def split: option.splits)

lemma validate_code_tree_eval:
  "validate_code (scenario_env (Inr tree_eval) outcome_png ''eval('1')'') (PyStr ''eval('1')'')
     = (True, [])"
  by (simp add: validate_code_def validate_try_def scenario_env_simps tree_eval_def
      check_node_def strip_defs)

text \<open>
  C1. The claim: code that calls \<open>exec\<close> or \<open>eval\<close> by its bare name is rejected. The
  code does not do so: every \<open>Call\<close> node is taken by the branch that looks for \<open>open\<close>
  and \<open>__import__\<close>, so the branch for \<open>exec\<close> and \<open>eval\<close> after it is never reached. No
  node makes the validator raise the \<open>exec/eval not allowed\<close> error, a call of \<open>eval\<close> or
  \<open>exec\<close> passes the check of its node whatever its arguments, and \<open>eval('1')\<close> is
  accepted with nothing printed.
\<close>

theorem eval_call_accepted:
  "check_node n \<noteq> Some (ValueError ''exec/eval not allowed'') \<and>
   check_node (Call (Name ''eval'') as) = None \<and>
   check_node (Call (Name ''exec'') as) = None \<and>
   validate_code (scenario_env (Inr tree_eval) outcome_png ''eval('1')'') (PyStr ''eval('1')'')
     = (True, [])"
  using check_node_never_exec_eval [of n] check_node_eval [of as] check_node_exec [of as]
    validate_code_tree_eval by blast

theorem eval_call_accepted_witness:
  "fst (validate_code (scenario_env (Inr tree_eval) outcome_png ''eval('1')'') (PyStr ''eval('1')''))
     = True"
  using eval_call_accepted [of "Name ''eval''" "[]"] by simp

section \<open>Imports outside the allow-list (C3)\<close>

lemma execute_visualization_invalid:
  assumes "fst (validate_code env (PyStr code)) = False"
  shows "execute_visualization env w code data =
     (w\<lparr>printed := printed w @ snd (validate_code env (PyStr code))\<rparr>,
      Inl (ValueError ''Invalid visualization code''))"
  using assms by (cases "validate_code env (PyStr code)") (simp add: execute_visualization_def)

text \<open>
  C3. When the code parses to a tree that holds, anywhere, an import whose top-level
  module name is outside the allow-list, \<open>validate_code\<close> returns \<open>False\<close>, and
  \<open>execute_visualization\<close> raises its validation error (\<open>ValueError\<close>, "Invalid
  visualization code") at once: the file system is as before, no file has been written
  and no process has been started.
\<close>

theorem import_outside_allow_list_rejected:
  assumes "ast_parse env (strip code) = Inr tree"
    and "n \<in> set (subnodes tree)"
    and "import_outside_allow_list n"
  shows "fst (validate_code env (PyStr code)) = False \<and>
     snd (execute_visualization env w code data) = Inl (ValueError ''Invalid visualization code'') \<and>
     fs (fst (execute_visualization env w code data)) = fs w \<and>
     writes (fst (execute_visualization env w code data)) = writes w \<and>
     spawns (fst (execute_visualization env w code data)) = spawns w"
proof -
  have "check_node n \<noteq> None" using assms(3) by (rule check_node_import)
  with assms(1,2) have rejected: "fst (validate_code env (PyStr code)) = False"
    by (rule validate_code_violation)
  then show ?thesis by (simp add: execute_visualization_invalid)
qed

text \<open>Scenario A: \<open>import os\<close>, then \<open>os.system('ls')\<close>.\<close>

theorem import_outside_allow_list_rejected_witness:
  "import_outside_allow_list (Import [''os'']) \<and>
   Import [''os''] \<in> set (subnodes tree_import_os) \<and>
   fst (validate_code (scenario_env (Inr tree_import_os) outcome_png [])
          (PyStr ''import os\<newline>os.system('ls')'')) = False \<and>
   snd (execute_visualization (scenario_env (Inr tree_import_os) outcome_png []) world0
          ''import os\<newline>os.system('ls')'' ''[{'a':1}]'')
     = Inl (ValueError ''Invalid visualization code'') \<and>
   spawns (fst (execute_visualization (scenario_env (Inr tree_import_os) outcome_png []) world0
          ''import os\<newline>os.system('ls')'' ''[{'a':1}]'')) = [] \<and>
   writes (fst (execute_visualization (scenario_env (Inr tree_import_os) outcome_png []) world0
          ''import os\<newline>os.system('ls')'' ''[{'a':1}]'')) = []"
proof -
  have bad: "import_outside_allow_list (Import [''os''])"
    by (simp add: ALLOWED_IMPORTS_def split_dot_0_def)
  have inside: "Import [''os''] \<in> set (subnodes tree_import_os)"
    by (simp add: tree_import_os_def subnodes.simps)
  have parsed: "ast_parse (scenario_env (Inr tree_import_os) outcome_png [])
      (strip ''import os\<newline>os.system('ls')'') = Inr tree_import_os"
    by (simp add: scenario_env_simps)
  show ?thesis
    using import_outside_allow_list_rejected [OF parsed inside bad, of world0 "''[{'a':1}]''"] bad inside
    by (simp add: world0_def)
qed

section \<open>Function and class definitions (C5)\<close>






section \<open>The validator never raises (C6)\<close>

lemma strip_all_space: "list_all isspace s \<Longrightarrow> strip s = []"
proof -
  assume "list_all isspace s"
  then have "dropWhile isspace s = []" by (induction s) simp_all
  then have "strip s = rev (dropWhile isspace (rev []))"
    by (simp only: strip_def lstrip_def rstrip_def)
  then show ?thesis by simp
qed

lemma validate_code_True:
  "fst (validate_code env v) = True \<longleftrightarrow>
     (\<exists>c. v = PyStr c \<and> strip c \<noteq> [] \<and> validate_try env (strip c) = Inr True)"
proof (cases v)
  case (PyStr c)
  show ?thesis
  proof (cases "strip c = []")
    case True
    with PyStr show ?thesis by (simp add: validate_code_def)
  next
    case False
    then have "c \<noteq> []" by (auto simp: strip_defs)
    with PyStr False show ?thesis
      by (auto simp: validate_code_def split: sum.splits exn.splits)
  qed
qed (simp_all add: validate_code_def)

lemma validate_code_not_str:
  "\<not> isinstance_str v \<Longrightarrow> validate_code env v = (False, [''Invalid code: Code must be a non-empty string''])"
  by (simp add: validate_code_def)

lemma validate_code_space:
  "s \<noteq> [] \<Longrightarrow> list_all isspace s \<Longrightarrow>
     validate_code env (PyStr s) = (False, [''Invalid code: Code is empty after stripping''])"
  by (simp add: validate_code_def strip_all_space)

lemma validate_code_raised:
  assumes "strip s \<noteq> []" and "validate_try env (strip s) = Inl e"
  shows "validate_code env (PyStr s) =
     (False, [case e of SyntaxError m \<Rightarrow> ''Syntax error in code: '' @ m
                | _ \<Rightarrow> ''Code validation error: '' @ str_exn e])"
proof -
  have "s \<noteq> []" using assms(1) by (auto simp: strip_defs)
  with assms show ?thesis by (cases e) (simp_all add: validate_code_def)
qed

lemma validate_try_parse_error: "ast_parse env c = Inl e \<Longrightarrow> validate_try env c = Inl e"
  by (simp add: validate_try_def)

text \<open>
  C6. \<open>validate_code\<close> gives a verdict for every input. A value that is not a string
  and the empty string are rejected at once ("Code must be a non-empty string"); a
  string of whitespace is rejected after stripping; code the parser refuses with a
  \<open>SyntaxError\<close> is rejected with "Syntax error in code:" and the parser's message;
  whatever else is raised while parsing or walking is caught and gives \<open>False\<close> too.
  The verdict is \<open>True\<close> only for a string that is not empty after stripping and whose
  \<open>try\<close> block runs to its end.
\<close>

theorem validate_code_total:
  "(\<not> isinstance_str v \<longrightarrow>
      validate_code env v = (False, [''Invalid code: Code must be a non-empty string''])) \<and>
   validate_code env (PyStr []) = (False, [''Invalid code: Code must be a non-empty string'']) \<and>
   (s \<noteq> [] \<and> list_all isspace s \<longrightarrow>
      validate_code env (PyStr s) = (False, [''Invalid code: Code is empty after stripping''])) \<and>
   (strip s \<noteq> [] \<and> ast_parse env (strip s) = Inl (SyntaxError m) \<longrightarrow>
      validate_code env (PyStr s) = (False, [''Syntax error in code: '' @ m])) \<and>
   (strip s \<noteq> [] \<and> validate_try env (strip s) = Inl e \<longrightarrow>
      validate_code env (PyStr s) =
        (False, [case e of SyntaxError m \<Rightarrow> ''Syntax error in code: '' @ m
                   | _ \<Rightarrow> ''Code validation error: '' @ str_exn e])) \<and>
   (fst (validate_code env v) = True \<longleftrightarrow>
      (\<exists>c. v = PyStr c \<and> strip c \<noteq> [] \<and> validate_try env (strip c) = Inr True))"
proof (intro conjI impI)
  show "validate_code env (PyStr []) = (False, [''Invalid code: Code must be a non-empty string''])"
    by (simp add: validate_code_def)
next
  assume "strip s \<noteq> [] \<and> ast_parse env (strip s) = Inl (SyntaxError m)"
  then show "validate_code env (PyStr s) = (False, [''Syntax error in code: '' @ m])"
    using validate_code_raised [of s env "SyntaxError m"] validate_try_parse_error [of env "strip s"]
    by simp
next
  show "fst (validate_code env v) = True \<longleftrightarrow>
      (\<exists>c. v = PyStr c \<and> strip c \<noteq> [] \<and> validate_try env (strip c) = Inr True)"
    by (rule validate_code_True)
qed (simp_all add: validate_code_not_str validate_code_space validate_code_raised)

theorem validate_code_total_witness:
  "validate_code (scenario_env (Inl (SyntaxError ''invalid syntax (<unknown>, line 1)'')) outcome_png [])
     PyNone = (False, [''Invalid code: Code must be a non-empty string'']) \<and>
   validate_code (scenario_env (Inl (SyntaxError ''invalid syntax (<unknown>, line 1)'')) outcome_png [])
     (PyInt 5) = (False, [''Invalid code: Code must be a non-empty string'']) \<and>
   validate_code (scenario_env (Inl (SyntaxError ''invalid syntax (<unknown>, line 1)'')) outcome_png [])
     (PyStr []) = (False, [''Invalid code: Code must be a non-empty string'']) \<and>
   validate_code (scenario_env (Inl (SyntaxError ''invalid syntax (<unknown>, line 1)'')) outcome_png [])
     (PyStr '' \<newline>  '') = (False, [''Invalid code: Code is empty after stripping'']) \<and>
   validate_code (scenario_env (Inl (SyntaxError ''invalid syntax (<unknown>, line 1)'')) outcome_png [])
     (PyStr ''plt.bar(('') = (False, [''Syntax error in code: invalid syntax (<unknown>, line 1)'']) \<and>
   validate_code (scenario_env (Inl (OtherError ''maximum recursion depth exceeded'')) outcome_png [])
     (PyStr ''plt.bar(('') = (False, [''Code validation error: maximum recursion depth exceeded''])"
proof -
  let ?env = "scenario_env (Inl (SyntaxError ''invalid syntax (<unknown>, line 1)'')) outcome_png []"
  let ?env2 = "scenario_env (Inl (OtherError ''maximum recursion depth exceeded'')) outcome_png []"
  have space: "'' \<newline>  '' \<noteq> [] \<and> list_all isspace '' \<newline>  ''" by (simp add: isspace_def)
  have nonempty: "strip ''plt.bar(('' \<noteq> []" by (simp add: strip_defs)
  have parse: "ast_parse ?env (strip ''plt.bar(('') = Inl (SyntaxError ''invalid syntax (<unknown>, line 1)'')"
    by (simp add: scenario_env_simps)
  have raised: "validate_try ?env2 (strip ''plt.bar(('') = Inl (OtherError ''maximum recursion depth exceeded'')"
    by (simp add: validate_try_def scenario_env_simps)
  show ?thesis
    using validate_code_total [of PyNone ?env "'' \<newline>  ''" "''invalid syntax (<unknown>, line 1)''" "OtherError []"]
      validate_code_total [of "PyInt 5" ?env "''plt.bar((''" "''invalid syntax (<unknown>, line 1)''" "OtherError []"]
      validate_code_total [of "PyInt 5" ?env2 "''plt.bar((''" "[]" "OtherError ''maximum recursion depth exceeded''"]
      space nonempty parse raised
    by simp
qed

section \<open>The rendered script and the outcome of a run (C7, C8, C9)\<close>

lemma format_field_plain:
  "list_all (\<lambda>c. c \<noteq> CHR ''}'') name \<Longrightarrow>
     format_field acc (name @ CHR ''}'' # rest) = Some (acc @ name, rest)"
  by (induction name arbitrary: acc) simp_all

lemma format_str_plain:
  "list_all (\<lambda>c. c \<noteq> CHR ''{'' \<and> c \<noteq> CHR ''}'') p \<Longrightarrow>
     format_str (p @ t) kwargs = (case format_str t kwargs of Inl e \<Rightarrow> Inl e | Inr r \<Rightarrow> Inr (p @ r))"
  by (induction p) (simp_all split: sum.splits)

lemma TEMPLATE_parts: "TEMPLATE = PROLOGUE @ ''{code}'' @ EPILOGUE"
  by (simp add: TEMPLATE_def PROLOGUE_def EPILOGUE_def)

lemma PROLOGUE_plain: "list_all (\<lambda>c. c \<noteq> CHR ''{'' \<and> c \<noteq> CHR ''}'') PROLOGUE"
  by (simp add: PROLOGUE_def)

lemma EPILOGUE_plain: "list_all (\<lambda>c. c \<noteq> CHR ''{'' \<and> c \<noteq> CHR ''}'') EPILOGUE"
  by (simp add: EPILOGUE_def)

lemma EPILOGUE_not_brace: "\<not> (EPILOGUE \<noteq> [] \<and> hd EPILOGUE = CHR ''{'')"
  by (simp add: EPILOGUE_def)

lemma format_str_field:
  assumes "\<not> (rest \<noteq> [] \<and> hd rest = CHR ''{'')"
  shows "format_str (''{code}'' @ rest) [(''code'', x)] =
     (case format_str rest [(''code'', x)] of Inl e \<Rightarrow> Inl e | Inr r \<Rightarrow> Inr (x @ r))"
proof -
  have "format_field [] (''code'' @ CHR ''}'' # rest) = Some ([] @ ''code'', rest)"
    by (rule format_field_plain) simp
  then show ?thesis by simp
qed

lemma format_str_TEMPLATE: "format_str TEMPLATE [(''code'', x)] = Inr (PROLOGUE @ x @ EPILOGUE)"
proof -
  have e: "format_str EPILOGUE [(''code'', x)] = Inr EPILOGUE"
    using format_str_plain [OF EPILOGUE_plain, of "[]" "[(''code'', x)]"] by simp
  have "format_str (''{code}'' @ EPILOGUE) [(''code'', x)] = Inr (x @ EPILOGUE)"
    using format_str_field [OF EPILOGUE_not_brace, of x] e by simp
  then have "format_str (PROLOGUE @ ''{code}'' @ EPILOGUE) [(''code'', x)] = Inr (PROLOGUE @ x @ EPILOGUE)"
    using format_str_plain [OF PROLOGUE_plain, of "''{code}'' @ EPILOGUE" "[(''code'', x)]"] by simp
  then show ?thesis by (simp only: TEMPLATE_parts)
qed

lemma render_script_text: "render_script code data = Inr (script_text code data)"
  by (simp add: render_script_def script_text_def format_str_TEMPLATE)


lemma run_script_result:
  assumes "subprocess_run env (fs w) script d = Inr (f2, result)"
  shows "snd (run_script env w script d) =
       (if returncode result \<noteq> 0
        then Inl (RuntimeError (''Visualization failed: '' @ stderr result))
        else decode_stdout (stdout result))"
    and "spawns (fst (run_script env w script d)) = spawns w @ [(script, d)]"
    and "writes (fst (run_script env w script d)) = writes w"
  using assms by (auto simp: run_script_def Let_def split: sum.splits)

lemma run_script_writes: "writes (fst (run_script env w script d)) = writes w"
  by (auto simp: run_script_def Let_def split: sum.splits prod.splits)

lemma with_temp_dir_written:
  assumes "open_write env (fs w) (d @ [''visualization.py'']) (script_text code data) = None"
  shows "with_temp_dir env w d code data =
     run_script env
       (w\<lparr>fs := (fs w)(d @ [''visualization.py''] \<mapsto> File (script_text code data)),
          writes := writes w @ [(d @ [''visualization.py''], script_text code data)]\<rparr>)
       (d @ [''visualization.py'']) d"
  using assms by (simp add: with_temp_dir_def render_script_text Let_def)

lemma execute_visualization_valid:
  assumes "fst (validate_code env (PyStr code)) = True" and "mkdtemp env (fs w) = Inr d"
  shows "execute_visualization env w code data =
     (let w0 = w\<lparr>printed := printed w @ snd (validate_code env (PyStr code))\<rparr>;
          (w1, r) = with_temp_dir env (w0\<lparr>fs := (fs w)(d \<mapsto> Dir)\<rparr>) d code data
      in (w1\<lparr>fs := rmtree d (fs w1)\<rparr>, r))"
  using assms by (cases "validate_code env (PyStr code)") (simp add: execute_visualization_def)

lemma execute_visualization_run:
  assumes "fst (validate_code env (PyStr code)) = True"
    and "mkdtemp env (fs w) = Inr d"
    and "open_write env ((fs w)(d \<mapsto> Dir)) (d @ [''visualization.py'']) (script_text code data) = None"
    and "subprocess_run env
           ((fs w)(d \<mapsto> Dir, d @ [''visualization.py''] \<mapsto> File (script_text code data)))
           (d @ [''visualization.py'']) d = Inr (f2, result)"
  shows "snd (execute_visualization env w code data) =
     (if returncode result \<noteq> 0
      then Inl (RuntimeError (''Visualization failed: '' @ stderr result))
      else decode_stdout (stdout result))"
proof -
  let ?w0 = "w\<lparr>printed := printed w @ snd (validate_code env (PyStr code)), fs := (fs w)(d \<mapsto> Dir)\<rparr>"
  let ?w1 = "?w0\<lparr>fs := (fs ?w0)(d @ [''visualization.py''] \<mapsto> File (script_text code data)),
          writes := writes ?w0 @ [(d @ [''visualization.py''], script_text code data)]\<rparr>"
  have "with_temp_dir env ?w0 d code data = run_script env ?w1 (d @ [''visualization.py'']) d"
    using assms(3) by (intro with_temp_dir_written) simp
  moreover have "snd (run_script env ?w1 (d @ [''visualization.py'']) d) =
       (if returncode result \<noteq> 0
        then Inl (RuntimeError (''Visualization failed: '' @ stderr result))
        else decode_stdout (stdout result))"
    using assms(4) by (intro run_script_result(1)) simp
  ultimately show ?thesis
    by (simp add: execute_visualization_valid [OF assms(1,2)] Let_def case_prod_beta)
qed



text \<open>
  C8. The template is the prologue, the field \<open>{code}\<close> and the epilogue. For every code
  \<open>c\<close> and data \<open>d\<close> the rendered script is the prologue, then \<open>data = \<close> followed by \<open>d\<close> as
  it is and a line break, then \<open>c\<close>, then the epilogue; and this text is what a call that
  passes validation writes to \<open>visualization.py\<close> in its temporary directory.
\<close>

theorem rendered_script_written:
  "TEMPLATE = PROLOGUE @ ''{code}'' @ EPILOGUE \<and>
   render_script code data =
     Inr (PROLOGUE @ ''data = '' @ data @ [CHR ''\<newline>''] @ code @ EPILOGUE) \<and>
   (fst (validate_code env (PyStr code)) = True \<and> mkdtemp env (fs w) = Inr d \<and>
    open_write env ((fs w)(d \<mapsto> Dir)) (d @ [''visualization.py''])
      (PROLOGUE @ ''data = '' @ data @ [CHR ''\<newline>''] @ code @ EPILOGUE) = None \<longrightarrow>
    writes (fst (execute_visualization env w code data)) =
      writes w @ [(d @ [''visualization.py''],
                   PROLOGUE @ ''data = '' @ data @ [CHR ''\<newline>''] @ code @ EPILOGUE)])"
proof (intro conjI impI)
  show "TEMPLATE = PROLOGUE @ ''{code}'' @ EPILOGUE" by (rule TEMPLATE_parts)
  show "render_script code data =
     Inr (PROLOGUE @ ''data = '' @ data @ [CHR ''\<newline>''] @ code @ EPILOGUE)"
    using render_script_text [of code data] by (simp add: script_text_def)
next
  assume a: "fst (validate_code env (PyStr code)) = True \<and> mkdtemp env (fs w) = Inr d \<and>
    open_write env ((fs w)(d \<mapsto> Dir)) (d @ [''visualization.py''])
      (PROLOGUE @ ''data = '' @ data @ [CHR ''\<newline>''] @ code @ EPILOGUE) = None"
  let ?w0 = "w\<lparr>printed := printed w @ snd (validate_code env (PyStr code)), fs := (fs w)(d \<mapsto> Dir)\<rparr>"
  let ?w1 = "?w0\<lparr>fs := (fs ?w0)(d @ [''visualization.py''] \<mapsto> File (script_text code data)),
          writes := writes ?w0 @ [(d @ [''visualization.py''], script_text code data)]\<rparr>"
  have "with_temp_dir env ?w0 d code data = run_script env ?w1 (d @ [''visualization.py'']) d"
    using a by (intro with_temp_dir_written) (simp add: script_text_def)
  moreover have "writes (fst (run_script env ?w1 (d @ [''visualization.py'']) d)) = writes ?w1"
    by (rule run_script_writes)
  ultimately have "writes (fst (execute_visualization env w code data)) =
      writes w @ [(d @ [''visualization.py''], script_text code data)]"
    using a by (simp add: execute_visualization_valid Let_def case_prod_beta)
  then show "writes (fst (execute_visualization env w code data)) =
      writes w @ [(d @ [''visualization.py''],
                   PROLOGUE @ ''data = '' @ data @ [CHR ''\<newline>''] @ code @ EPILOGUE)]"
    by (simp add: script_text_def)
qed

theorem rendered_script_written_witness:
  "writes (fst (execute_visualization (scenario_env (Inr tree_bar_chart) outcome_png []) world0
          code_bar_chart data_rows)) =
     [([''tmp'', ''tmpk3x9'', ''visualization.py''],
       PROLOGUE @ ''data = [{'a':1}]\<newline>plt.bar(['a','b'],[1,2])\<newline>plt.title('Test')'' @ EPILOGUE)]"
  using rendered_script_written [of code_bar_chart data_rows
      "scenario_env (Inr tree_bar_chart) outcome_png []" world0 "[''tmp'', ''tmpk3x9'']"]
    fst_valid_bar_chart [of outcome_png "[]"]
  by (simp add: scenario_env_simps world0_def code_bar_chart_def data_rows_def)

text \<open>
  C9. When a call passes validation and its temporary directory \<open>d\<close> has been created,
  neither \<open>d\<close> nor anything below it exists when the call is over, whatever happened
  in between: the write failed, no process could be started, the process failed, the
  output could not be decoded, or an image was returned.
\<close>

theorem temp_dir_removed:
  assumes "fst (validate_code env (PyStr code)) = True"
    and "mkdtemp env (fs w) = Inr d"
  shows "\<forall>p. prefix d p \<longrightarrow> fs (fst (execute_visualization env w code data)) p = None"
proof (intro allI impI)
  fix p
  assume below: "prefix d p"
  let ?w0 = "w\<lparr>printed := printed w @ snd (validate_code env (PyStr code)), fs := (fs w)(d \<mapsto> Dir)\<rparr>"
  obtain w1 r where body: "with_temp_dir env ?w0 d code data = (w1, r)"
    by (cases "with_temp_dir env ?w0 d code data")
  then have "fst (execute_visualization env w code data) = w1\<lparr>fs := rmtree d (fs w1)\<rparr>"
    by (simp add: execute_visualization_valid [OF assms] Let_def)
  then have "fs (fst (execute_visualization env w code data)) = rmtree d (fs w1)"
    by simp
  with below show "fs (fst (execute_visualization env w code data)) p = None"
    by (simp add: rmtree_def)
qed

theorem temp_dir_removed_witness:
  "fs (fst (execute_visualization (scenario_env (Inr tree_bar_chart) outcome_png []) world0
          code_bar_chart data_rows)) [''tmp'', ''tmpk3x9''] = None \<and>
   fs (fst (execute_visualization (scenario_env (Inr tree_bar_chart) outcome_png []) world0
          code_bar_chart data_rows)) [''tmp'', ''tmpk3x9'', ''visualization.py''] = None \<and>
   fs (fst (execute_visualization (scenario_env (Inr tree_bar_chart) outcome_failed []) world0
          code_bar_chart data_rows)) [''tmp'', ''tmpk3x9''] = None \<and>
   fs (fst (execute_visualization (scenario_env (Inr tree_bar_chart) outcome_failed []) world0
          code_bar_chart data_rows)) [''tmp'', ''tmpk3x9'', ''visualization.py''] = None"
proof -
  have p1: "prefix [''tmp'', ''tmpk3x9''] [''tmp'', ''tmpk3x9'']" by simp
  have p2: "prefix [''tmp'', ''tmpk3x9''] [''tmp'', ''tmpk3x9'', ''visualization.py'']" by simp
  have v1: "fst (validate_code (scenario_env (Inr tree_bar_chart) outcome_png []) (PyStr code_bar_chart)) = True"
    by (rule fst_valid_bar_chart)
  have v2: "fst (validate_code (scenario_env (Inr tree_bar_chart) outcome_failed []) (PyStr code_bar_chart)) = True"
    by (rule fst_valid_bar_chart)
  have m1: "mkdtemp (scenario_env (Inr tree_bar_chart) outcome_png []) (fs world0) = Inr [''tmp'', ''tmpk3x9'']"
    by (simp add: scenario_env_simps)
  have m2: "mkdtemp (scenario_env (Inr tree_bar_chart) outcome_failed []) (fs world0) = Inr [''tmp'', ''tmpk3x9'']"
    by (simp add: scenario_env_simps)
  show ?thesis
    using temp_dir_removed [OF v1 m1, of data_rows] temp_dir_removed [OF v2 m2, of data_rows] p1 p2
    by blast
qed

section \<open>The session slot (C10)\<close>

lemma execute_query_viz_failed:
  assumes "prefix ''select'' (strip (lower query))"
    and "deps_execute_query env query = Inr rows"
    and "viz_agent_run env (viz_prompt query rows) = Inr code"
    and "code \<noteq> ''None''" and "code \<noteq> []"
    and "execute_visualization env w code rows = (w1, Inl e)"
  shows "execute_query env d w query =
     (d, w1\<lparr>printed := printed w1 @ [''Visualization failed: '' @ str_exn e]\<rparr>,
      Inr \<lparr>results = rows, visualization_code = None, has_visualization = False\<rparr>)"
  using assms by (simp add: execute_query_def Let_def)


lemma select_query: "prefix ''select'' (strip (lower ''SELECT a FROM t''))"
  by code_simp

lemma scenario_rows:
  "deps_execute_query (scenario_env parsed outcome answer) q = Inr ''[{'a': 1}]''"
  by (simp add: deps_execute_query_def scenario_env_simps)




section \<open>Failures of the visualization in the query tool (C4)\<close>

lemma disk_full_env_simps:
  "ast_parse disk_full_env c = Inr tree_bar_chart"
  "mkdtemp disk_full_env f = Inl (OSError ''[Errno 28] No space left on device'')"
  "conn_execute disk_full_env q = None"
  "conn_fetch disk_full_env q = Inr ''[{'a': 1}]''"
  "viz_agent_run disk_full_env prompt = Inr code_bar_chart"
  by (simp_all add: disk_full_env_def scenario_env_def)

lemma execute_disk_full:
  "execute_visualization disk_full_env world0 code_bar_chart ''[{'a': 1}]'' =
     (world0, Inl (OSError ''[Errno 28] No space left on device''))"
  by (simp add: execute_visualization_def validate_code_def validate_try_def disk_full_env_simps
      tree_bar_chart_def code_bar_chart_def check_node_def strip_defs world0_def)

lemma execute_query_disk_full:
  "snd (snd (execute_query disk_full_env deps0 world0 ''SELECT a FROM t'')) =
     Inr \<lparr>results = ''[{'a': 1}]'', visualization_code = None, has_visualization = False\<rparr>"
proof -
  have rows: "deps_execute_query disk_full_env ''SELECT a FROM t'' = Inr ''[{'a': 1}]''"
    by (simp add: deps_execute_query_def disk_full_env_simps)
  have agent: "viz_agent_run disk_full_env (viz_prompt ''SELECT a FROM t'' ''[{'a': 1}]'') = Inr code_bar_chart"
    by (simp add: disk_full_env_simps)
  have code: "code_bar_chart \<noteq> ''None''" "code_bar_chart \<noteq> []"
    by (simp_all add: code_bar_chart_def)
  show ?thesis
    using execute_query_viz_failed [OF select_query rows agent code execute_disk_full, of deps0]
    by simp
qed

lemma run_script_no_process:
  "subprocess_run env (fs w) script d = Inl e \<Longrightarrow> snd (run_script env w script d) = Inl e"
  by (simp add: run_script_def)

lemma execute_visualization_no_process:
  assumes "fst (validate_code env (PyStr code)) = True"
    and "mkdtemp env (fs w) = Inr d"
    and "open_write env ((fs w)(d \<mapsto> Dir)) (d @ [''visualization.py'']) (script_text code data) = None"
    and "subprocess_run env
           ((fs w)(d \<mapsto> Dir, d @ [''visualization.py''] \<mapsto> File (script_text code data)))
           (d @ [''visualization.py'']) d = Inl e"
  shows "snd (execute_visualization env w code data) = Inl e"
proof -
  let ?w0 = "w\<lparr>printed := printed w @ snd (validate_code env (PyStr code)), fs := (fs w)(d \<mapsto> Dir)\<rparr>"
  let ?w1 = "?w0\<lparr>fs := (fs ?w0)(d @ [''visualization.py''] \<mapsto> File (script_text code data)),
          writes := writes ?w0 @ [(d @ [''visualization.py''], script_text code data)]\<rparr>"
  have "with_temp_dir env ?w0 d code data = run_script env ?w1 (d @ [''visualization.py'']) d"
    using assms(3) by (intro with_temp_dir_written) simp
  moreover have "snd (run_script env ?w1 (d @ [''visualization.py'']) d) = Inl e"
    using assms(4) by (intro run_script_no_process) simp
  ultimately show ?thesis
    by (simp add: execute_visualization_valid [OF assms(1,2)] Let_def case_prod_beta)
qed

lemma no_process_env_simps:
  "ast_parse no_process_env c = Inr tree_bar_chart"
  "mkdtemp no_process_env f = Inr [''tmp'', ''tmpk3x9'']"
  "open_write no_process_env f p t = None"
  "subprocess_run no_process_env f p cwd = Inl (OSError ''[Errno 11] Resource temporarily unavailable'')"
  "conn_execute no_process_env q = None"
  "conn_fetch no_process_env q = Inr ''[{'a': 1}]''"
  "viz_agent_run no_process_env prompt = Inr code_bar_chart"
  by (simp_all add: no_process_env_def scenario_env_def)

lemma valid_no_process: "fst (validate_code no_process_env (PyStr code_bar_chart)) = True"
  by (simp add: validate_code_def validate_try_def no_process_env_simps tree_bar_chart_def
      code_bar_chart_def check_node_def strip_defs)

lemma execute_no_process:
  "snd (execute_visualization no_process_env world0 code_bar_chart ''[{'a': 1}]'') =
     Inl (OSError ''[Errno 11] Resource temporarily unavailable'')"
  using execute_visualization_no_process [of no_process_env code_bar_chart world0
      "[''tmp'', ''tmpk3x9'']" "''[{'a': 1}]''" "OSError ''[Errno 11] Resource temporarily unavailable''"]
    valid_no_process
  by (simp add: no_process_env_simps)

lemma execute_query_no_process:
  "snd (snd (execute_query no_process_env deps0 world0 ''SELECT a FROM t'')) =
     Inr \<lparr>results = ''[{'a': 1}]'', visualization_code = None, has_visualization = False\<rparr>"
proof -
  have rows: "deps_execute_query no_process_env ''SELECT a FROM t'' = Inr ''[{'a': 1}]''"
    by (simp add: deps_execute_query_def no_process_env_simps)
  have agent: "viz_agent_run no_process_env (viz_prompt ''SELECT a FROM t'' ''[{'a': 1}]'') = Inr code_bar_chart"
    by (simp add: no_process_env_simps)
  have code: "code_bar_chart \<noteq> ''None''" "code_bar_chart \<noteq> []"
    by (simp_all add: code_bar_chart_def)
  have run: "execute_visualization no_process_env world0 code_bar_chart ''[{'a': 1}]'' =
      (fst (execute_visualization no_process_env world0 code_bar_chart ''[{'a': 1}]''),
       Inl (OSError ''[Errno 11] Resource temporarily unavailable''))"
    using execute_no_process by (simp add: prod_eq_iff)
  show ?thesis
    using execute_query_viz_failed [OF select_query rows agent code run, of deps0]
    by simp
qed

lemma execute_bar_chart_failed:
  "snd (execute_visualization (scenario_env (Inr tree_bar_chart) outcome_failed answer) world0
     code_bar_chart data) =
     Inl (RuntimeError ''Visualization failed: NameError: name 'df' is not defined'')"
  using execute_visualization_run [of "scenario_env (Inr tree_bar_chart) outcome_failed answer"
      code_bar_chart world0 "[''tmp'', ''tmpk3x9'']" data _ outcome_failed]
    fst_valid_bar_chart [of outcome_failed answer]
  by (simp add: scenario_env_simps outcome_failed_def)

text \<open>
  C4, as amended. Whatever exception \<open>execute_visualization\<close> raises, the tool catches
  it: the query still succeeds, and its response carries no visualization code and
  \<open>has_visualization = False\<close>; the slot is left as it was. This holds for the
  failures of the code (validation, a failed child process, output that does not
  decode) and for those of the host alike.
\<close>

theorem visualization_failure_absorbed:
  assumes "prefix ''select'' (strip (lower query))"
    and "deps_execute_query env query = Inr rows"
    and "viz_agent_run env (viz_prompt query rows) = Inr code"
    and "code \<noteq> ''None''" and "code \<noteq> []"
    and "execute_visualization env w code rows = (w1, Inl e)"
  shows "snd (snd (execute_query env d w query)) =
       Inr \<lparr>results = rows, visualization_code = None, has_visualization = False\<rparr> \<and>
     fst (execute_query env d w query) = d"
  using execute_query_viz_failed [OF assms, of d] by simp

theorem visualization_failure_absorbed_witness:
  "snd (snd (execute_query disk_full_env deps0 world0 ''SELECT a FROM t'')) =
     Inr \<lparr>results = ''[{'a': 1}]'', visualization_code = None, has_visualization = False\<rparr> \<and>
   fst (execute_query disk_full_env deps0 world0 ''SELECT a FROM t'') = deps0 \<and>
   snd (execute_visualization (scenario_env (Inr tree_bar_chart) outcome_failed code_bar_chart)
          world0 code_bar_chart ''[{'a': 1}]'') =
     Inl (RuntimeError ''Visualization failed: NameError: name 'df' is not defined'') \<and>
   snd (snd (execute_query (scenario_env (Inr tree_bar_chart) outcome_failed code_bar_chart)
          deps0 world0 ''SELECT a FROM t'')) =
     Inr \<lparr>results = ''[{'a': 1}]'', visualization_code = None, has_visualization = False\<rparr>"
proof -
  let ?env = "scenario_env (Inr tree_bar_chart) outcome_failed code_bar_chart"
  have rows: "deps_execute_query disk_full_env ''SELECT a FROM t'' = Inr ''[{'a': 1}]''"
    by (simp add: deps_execute_query_def disk_full_env_simps)
  have agent: "viz_agent_run disk_full_env (viz_prompt ''SELECT a FROM t'' ''[{'a': 1}]'') = Inr code_bar_chart"
    by (simp add: disk_full_env_simps)
  have code: "code_bar_chart \<noteq> ''None''" "code_bar_chart \<noteq> []"
    by (simp_all add: code_bar_chart_def)
  have rows2: "deps_execute_query ?env ''SELECT a FROM t'' = Inr ''[{'a': 1}]''"
    by (rule scenario_rows)
  have agent2: "viz_agent_run ?env (viz_prompt ''SELECT a FROM t'' ''[{'a': 1}]'') = Inr code_bar_chart"
    by (simp add: scenario_env_simps)
  have run2: "execute_visualization ?env world0 code_bar_chart ''[{'a': 1}]'' =
      (fst (execute_visualization ?env world0 code_bar_chart ''[{'a': 1}]''),
       Inl (RuntimeError ''Visualization failed: NameError: name 'df' is not defined''))"
    using execute_bar_chart_failed [of code_bar_chart "''[{'a': 1}]''"] by (simp add: prod_eq_iff)
  show ?thesis
    using visualization_failure_absorbed [OF select_query rows agent code execute_disk_full, of deps0]
      visualization_failure_absorbed [OF select_query rows2 agent2 code run2, of deps0]
      execute_bar_chart_failed [of code_bar_chart "''[{'a': 1}]''"]
    by simp
qed

text \<open>
  The claim as first stated lets a failure of the host pass through the tool. When no
  temporary directory can be created, or no process can be started,
  \<open>execute_visualization\<close> raises the \<open>OSError\<close>, and the tool turns it into a response
  without a visualization like any other.
\<close>

theorem environment_failure_counterexample:
  "snd (execute_visualization disk_full_env world0 code_bar_chart ''[{'a': 1}]'') =
     Inl (OSError ''[Errno 28] No space left on device'') \<and>
   snd (snd (execute_query disk_full_env deps0 world0 ''SELECT a FROM t'')) =
     Inr \<lparr>results = ''[{'a': 1}]'', visualization_code = None, has_visualization = False\<rparr> \<and>
   snd (execute_visualization no_process_env world0 code_bar_chart ''[{'a': 1}]'') =
     Inl (OSError ''[Errno 11] Resource temporarily unavailable'') \<and>
   snd (snd (execute_query no_process_env deps0 world0 ''SELECT a FROM t'')) =
     Inr \<lparr>results = ''[{'a': 1}]'', visualization_code = None, has_visualization = False\<rparr>"
  using execute_disk_full execute_query_disk_full execute_no_process execute_query_no_process
  by simp

section \<open>Decoding the output (C2)\<close>

lemma a2b_loop_filter:
  "a2b_loop (filter (\<lambda>c. c = CHR ''='' \<or> table_a2b_base64 c \<noteq> None) s) q l p bin
     = a2b_loop s q l p bin"
  by (induction s arbitrary: q l p bin) (auto split: option.splits)

lemma a2b_loop_no_padding:
  "CHR ''='' \<notin> set s \<Longrightarrow> q < 4 \<Longrightarrow>
     isl (a2b_loop s q l p bin) = ((q + length (b64_data_chars s)) mod 4 \<noteq> 0)"
proof (induction s arbitrary: q l p bin)
  case Nil
  then show ?case by (auto simp: b64_data_chars_def)
next
  case (Cons c cs)
  from Cons.prems have c: "c \<noteq> CHR ''=''" and cs: "CHR ''='' \<notin> set cs" by auto
  show ?case
  proof (cases "table_a2b_base64 c")
    case None
    with c Cons.IH [OF cs Cons.prems(2)] show ?thesis by (simp add: b64_data_chars_def)
  next
    case (Some v)
    from Cons.prems(2) consider "q = 0" | "q = 1" | "q = 2" | "q = 3" by linarith
    then show ?thesis
    proof cases
      case 1
      with c Some Cons.IH [OF cs, of 1] show ?thesis by (simp add: b64_data_chars_def)
    next
      case 2
      with c Some Cons.IH [OF cs, of 2] show ?thesis by (simp add: b64_data_chars_def)
    next
      case 3
      with c Some Cons.IH [OF cs, of 3] show ?thesis by (simp add: b64_data_chars_def)
    next
      case 4
      with c Some Cons.IH [OF cs, of 0] show ?thesis by (simp add: b64_data_chars_def)
    qed
  qed
qed

lemma decode_stdout_empty: "strip out = [] \<Longrightarrow> decode_stdout out = Inr []"
  by (simp add: decode_stdout_def b64decode_def a2b_base64_def)

lemma decode_stdout_fails:
  "isl (decode_stdout out) \<longleftrightarrow> \<not> list_all isascii (strip out) \<or> isl (a2b_base64 (strip out))"
  by (simp add: decode_stdout_def b64decode_def)

text \<open>
  C2, as amended. Decoding strips the whitespace at both ends of the output and gives
  all that is left, every line of it, to the base64 decoder as one text; the decoder
  skips the characters outside its alphabet, line breaks included. Empty output and
  output of whitespace only is not an error: it decodes to no bytes. Decoding fails
  exactly when the stripped text has a character outside ASCII or the decoder refuses
  it; for a text without \<open>=\<close> the decoder refuses it exactly when the number of its
  alphabet characters is not a multiple of four.
\<close>

theorem decode_stdout_lenient:
  "decode_stdout out = b64decode (strip out) \<and>
   (strip out = [] \<longrightarrow> decode_stdout out = Inr []) \<and>
   (isl (decode_stdout out) \<longleftrightarrow>
      \<not> list_all isascii (strip out) \<or> isl (a2b_base64 (strip out))) \<and>
   a2b_base64 (filter (\<lambda>c. c = CHR ''='' \<or> table_a2b_base64 c \<noteq> None) s) = a2b_base64 s \<and>
   (CHR ''='' \<notin> set s \<longrightarrow> isl (a2b_base64 s) = (length (b64_data_chars s) mod 4 \<noteq> 0))"
proof (intro conjI impI)
  show "decode_stdout out = b64decode (strip out)" by (simp add: decode_stdout_def)
  show "isl (decode_stdout out) \<longleftrightarrow>
      \<not> list_all isascii (strip out) \<or> isl (a2b_base64 (strip out))"
    by (rule decode_stdout_fails)
  show "a2b_base64 (filter (\<lambda>c. c = CHR ''='' \<or> table_a2b_base64 c \<noteq> None) s) = a2b_base64 s"
    using a2b_loop_filter [of s 0 0 0 "[]"] by (simp only: a2b_base64_def)
next
  assume "strip out = []"
  then show "decode_stdout out = Inr []" by (rule decode_stdout_empty)
next
  assume "CHR ''='' \<notin> set s"
  then show "isl (a2b_base64 s) = (length (b64_data_chars s) mod 4 \<noteq> 0)"
    using a2b_loop_no_padding [of s 0 0 0 "[]"] by (simp add: a2b_base64_def)
qed

lemmas b64_defs = decode_stdout_def b64decode_def a2b_base64_def isascii_def table_a2b_base64_def

theorem decode_stdout_lenient_witness:
  "strip '' \<newline>'' = [] \<and> decode_stdout '' \<newline>'' = Inr [] \<and>
   CHR ''='' \<notin> set ''QUJDR'' \<and> length (b64_data_chars ''QUJDR'') mod 4 = 1 \<and>
   isl (a2b_base64 ''QUJDR'') \<and>
   a2b_base64 ''QUJD\<newline>REVG'' = a2b_base64 ''QUJDREVG''"
proof -
  have e: "strip '' \<newline>'' = []" by (simp add: strip_defs)
  have n: "CHR ''='' \<notin> set ''QUJDR''" by simp
  have l: "length (b64_data_chars ''QUJDR'') mod 4 = 1"
    by (simp add: b64_data_chars_def table_a2b_base64_def)
  have f: "filter (\<lambda>c. c = CHR ''='' \<or> table_a2b_base64 c \<noteq> None) ''QUJD\<newline>REVG'' = ''QUJDREVG''"
    by (simp add: table_a2b_base64_def)
  show ?thesis
    using decode_stdout_lenient [of "'' \<newline>''" "''QUJDR''"]
      decode_stdout_lenient [of "'' \<newline>''" "''QUJD\<newline>REVG''"] e n l f
    by simp
qed

text \<open>
  The claim as first stated makes empty output an error and takes the last line alone
  as the payload. Empty output decodes to no bytes; two lines decode to the bytes of
  both, not of the last; and a line that is no base64 text at all (\<open>done.\<close>) decodes too.
\<close>

theorem decode_stdout_counterexample:
  "rstrip [] = [] \<and> decode_stdout [] = Inr [] \<and>
   decode_stdout ''QUJD\<newline>REVG\<newline>'' = Inr [0x41, 0x42, 0x43, 0x44, 0x45, 0x46] \<and>
   decode_stdout ''REVG'' = Inr [0x44, 0x45, 0x46] \<and>
   decode_stdout ''done.\<newline>'' = Inr [0x76, 0x89, 0xDE]"
  by (simp add: b64_defs strip_defs)

end
